theory Spec2Isabelle
  imports Main
begin

section \<open>The declarations of PPTX.h\<close>

text \<open>
  \<^verbatim>\<open>src-i386/PPTX.h\<close> holds no function body: inside one \<^verbatim>\<open>extern "C"\<close> block it
  declares sixteen functions. The header is embedded as what it is, a table of
  declarations: every declaration gives its storage class, its result type, its name and
  its parameters (type and name) in the order of the source.

  The C types that occur. \<^verbatim>\<open>Rboolean\<close>, \<^verbatim>\<open>SEXP\<close>, \<^verbatim>\<open>pDevDesc\<close> and \<^verbatim>\<open>pGEcontext\<close>
  are typedefs of the host's headers and stay opaque names; \<^verbatim>\<open>const char*\<close> is
  \<open>Ptr (Const CChar)\<close> and \<^verbatim>\<open>const pGEcontext\<close> is \<open>Const pGEcontext\<close>.
\<close>

datatype ctype =
    CVoid
  | CInt
  | CDouble
  | CChar
  | Rboolean
  | SEXP
  | pDevDesc
  | pGEcontext
  | Const ctype
  | Ptr ctype

text \<open>\<^verbatim>\<open>static\<close> declarations are private to the translation unit (the callbacks the
  driver installs in the device); the others are exported with C linkage.\<close>

datatype storage_class = Static | ExternC

record decl =
  storage :: storage_class
  result :: ctype
  ident :: string
  params :: "(ctype \<times> string) list"

definition PPTXDeviceDriver_decl :: decl where
  "PPTXDeviceDriver_decl =
     \<lparr>storage = Static, result = Rboolean, ident = ''PPTXDeviceDriver'',
      params = [(pDevDesc, ''dev''), (Ptr (Const CChar), ''filename''),
                (Ptr CDouble, ''width''), (Ptr CDouble, ''height''),
                (Ptr CDouble, ''offx''), (Ptr CDouble, ''offy''),
                (CDouble, ''ps''), (CInt, ''nbplots''),
                (Ptr (Const CChar), ''fontname''), (SEXP, ''env'')]\<rparr>"

definition GE_PPTXDevice_decl :: decl where
  "GE_PPTXDevice_decl =
     \<lparr>storage = ExternC, result = CVoid, ident = ''GE_PPTXDevice'',
      params = [(Ptr (Const CChar), ''filename''),
                (Ptr CDouble, ''width''), (Ptr CDouble, ''height''),
                (Ptr CDouble, ''offx''), (Ptr CDouble, ''offy''),
                (CDouble, ''ps''), (CInt, ''nbplots''),
                (Ptr (Const CChar), ''fontfamily'')]\<rparr>"

definition PPTX_activate_decl :: decl where
  "PPTX_activate_decl =
     \<lparr>storage = Static, result = CVoid, ident = ''PPTX_activate'',
      params = [(pDevDesc, ''dev'')]\<rparr>"

definition PPTX_Circle_decl :: decl where
  "PPTX_Circle_decl =
     \<lparr>storage = Static, result = CVoid, ident = ''PPTX_Circle'',
      params = [(CDouble, ''x''), (CDouble, ''y''), (CDouble, ''r''),
                (Const pGEcontext, ''gc''), (pDevDesc, ''dev'')]\<rparr>"

definition PPTX_Line_decl :: decl where
  "PPTX_Line_decl =
     \<lparr>storage = Static, result = CVoid, ident = ''PPTX_Line'',
      params = [(CDouble, ''x1''), (CDouble, ''y1''), (CDouble, ''x2''), (CDouble, ''y2''),
                (Const pGEcontext, ''gc''), (pDevDesc, ''dev'')]\<rparr>"

definition PPTX_Polyline_decl :: decl where
  "PPTX_Polyline_decl =
     \<lparr>storage = Static, result = CVoid, ident = ''PPTX_Polyline'',
      params = [(CInt, ''n''), (Ptr CDouble, ''x''), (Ptr CDouble, ''y''),
                (Const pGEcontext, ''gc''), (pDevDesc, ''dev'')]\<rparr>"

definition PPTX_Polygon_decl :: decl where
  "PPTX_Polygon_decl =
     \<lparr>storage = Static, result = CVoid, ident = ''PPTX_Polygon'',
      params = [(CInt, ''n''), (Ptr CDouble, ''x''), (Ptr CDouble, ''y''),
                (Const pGEcontext, ''gc''), (pDevDesc, ''dev'')]\<rparr>"

definition PPTX_Rect_decl :: decl where
  "PPTX_Rect_decl =
     \<lparr>storage = Static, result = CVoid, ident = ''PPTX_Rect'',
      params = [(CDouble, ''x0''), (CDouble, ''y0''), (CDouble, ''x1''), (CDouble, ''y1''),
                (Const pGEcontext, ''gc''), (pDevDesc, ''dev'')]\<rparr>"

definition PPTX_Text_decl :: decl where
  "PPTX_Text_decl =
     \<lparr>storage = Static, result = CVoid, ident = ''PPTX_Text'',
      params = [(CDouble, ''x''), (CDouble, ''y''), (Ptr (Const CChar), ''str''),
                (CDouble, ''rot''), (CDouble, ''hadj''),
                (Const pGEcontext, ''gc''), (pDevDesc, ''dev'')]\<rparr>"

definition PPTX_NewPage_decl :: decl where
  "PPTX_NewPage_decl =
     \<lparr>storage = Static, result = CVoid, ident = ''PPTX_NewPage'',
      params = [(Const pGEcontext, ''gc''), (pDevDesc, ''dev'')]\<rparr>"

definition PPTX_Close_decl :: decl where
  "PPTX_Close_decl =
     \<lparr>storage = Static, result = CVoid, ident = ''PPTX_Close'',
      params = [(pDevDesc, ''dev'')]\<rparr>"

definition PPTX_Clip_decl :: decl where
  "PPTX_Clip_decl =
     \<lparr>storage = Static, result = CVoid, ident = ''PPTX_Clip'',
      params = [(CDouble, ''x0''), (CDouble, ''x1''), (CDouble, ''y0''), (CDouble, ''y1''),
                (pDevDesc, ''dev'')]\<rparr>"

definition PPTX_MetricInfo_decl :: decl where
  "PPTX_MetricInfo_decl =
     \<lparr>storage = Static, result = CVoid, ident = ''PPTX_MetricInfo'',
      params = [(CInt, ''c''), (Const pGEcontext, ''gc''),
                (Ptr CDouble, ''ascent''), (Ptr CDouble, ''descent''),
                (Ptr CDouble, ''width''), (pDevDesc, ''dev'')]\<rparr>"

definition PPTX_Size_decl :: decl where
  "PPTX_Size_decl =
     \<lparr>storage = Static, result = CVoid, ident = ''PPTX_Size'',
      params = [(Ptr CDouble, ''left''), (Ptr CDouble, ''right''),
                (Ptr CDouble, ''bottom''), (Ptr CDouble, ''top''),
                (pDevDesc, ''dev'')]\<rparr>"

definition PPTX_StrWidth_decl :: decl where
  "PPTX_StrWidth_decl =
     \<lparr>storage = Static, result = CDouble, ident = ''PPTX_StrWidth'',
      params = [(Ptr (Const CChar), ''str''), (Const pGEcontext, ''gc''),
                (pDevDesc, ''dev'')]\<rparr>"

definition R_PPTX_Device_decl :: decl where
  "R_PPTX_Device_decl =
     \<lparr>storage = ExternC, result = SEXP, ident = ''R_PPTX_Device'',
      params = [(SEXP, ''filename''), (SEXP, ''width''), (SEXP, ''height''),
                (SEXP, ''offx''), (SEXP, ''offy''), (SEXP, ''pointsize''),
                (SEXP, ''fontfamily''), (SEXP, ''env'')]\<rparr>"

text \<open>The header, in the order of the source (the commented-out \<^verbatim>\<open>setDimensions\<close> of
  line 52 declares nothing).\<close>

definition PPTX_h :: "decl list" where
  "PPTX_h =
     [PPTXDeviceDriver_decl, GE_PPTXDevice_decl, PPTX_activate_decl, PPTX_Circle_decl,
      PPTX_Line_decl, PPTX_Polyline_decl, PPTX_Polygon_decl, PPTX_Rect_decl,
      PPTX_Text_decl, PPTX_NewPage_decl, PPTX_Close_decl, PPTX_Clip_decl,
      PPTX_MetricInfo_decl, PPTX_Size_decl, PPTX_StrWidth_decl, R_PPTX_Device_decl]"

lemmas decl_defs =
  PPTXDeviceDriver_decl_def GE_PPTXDevice_decl_def PPTX_activate_decl_def
  PPTX_Circle_decl_def PPTX_Line_decl_def PPTX_Polyline_decl_def PPTX_Polygon_decl_def
  PPTX_Rect_decl_def PPTX_Text_decl_def PPTX_NewPage_decl_def PPTX_Close_decl_def
  PPTX_Clip_decl_def PPTX_MetricInfo_decl_def PPTX_Size_decl_def PPTX_StrWidth_decl_def
  R_PPTX_Device_decl_def

subsection \<open>Reading the table\<close>

definition param_types :: "decl \<Rightarrow> ctype list" where
  "param_types d = map fst (params d)"

definition param_names :: "decl \<Rightarrow> string list" where
  "param_names d = map snd (params d)"

text \<open>The declarations of a given name.\<close>

definition declared :: "string \<Rightarrow> decl list" where
  "declared f = filter (\<lambda>d. ident d = f) PPTX_h"

text \<open>A result type other than \<^verbatim>\<open>void\<close> hands a value back to the caller.\<close>

definition returns_value :: "decl \<Rightarrow> bool" where
  "returns_value d = (result d \<noteq> CVoid)"

definition returns_type :: "ctype \<Rightarrow> decl \<Rightarrow> bool" where
  "returns_type t d = (result d = t)"

definition is_static :: "decl \<Rightarrow> bool" where
  "is_static d = (storage d = Static)"

text \<open>The plot count is the \<^verbatim>\<open>int nbplots\<close> parameter.\<close>

definition takes_plot_count :: "decl \<Rightarrow> bool" where
  "takes_plot_count d = ((CInt, ''nbplots'') \<in> set (params d))"

text \<open>A parameter through which the callee can write into the caller's storage: a pointer
  whose pointee is not \<^verbatim>\<open>const\<close>. The host handles (\<^verbatim>\<open>pDevDesc\<close>, \<^verbatim>\<open>pGEcontext\<close>,
  \<^verbatim>\<open>SEXP\<close>) are opaque typedefs, not output parameters.\<close>

definition is_output :: "ctype \<Rightarrow> bool" where
  "is_output t = (case t of Ptr (Const u) \<Rightarrow> False | Ptr u \<Rightarrow> True | _ \<Rightarrow> False)"

definition output_params :: "decl \<Rightarrow> (ctype \<times> string) list" where
  "output_params d = filter (\<lambda>p. is_output (fst p)) (params d)"

definition input_params :: "decl \<Rightarrow> (ctype \<times> string) list" where
  "input_params d = filter (\<lambda>p. \<not> is_output (fst p)) (params d)"

text \<open>The type a declaration gives to the parameter of a given name.\<close>

definition type_of_param :: "decl \<Rightarrow> string \<Rightarrow> ctype option" where
  "type_of_param d n = map_of (map (\<lambda>p. (snd p, fst p)) (params d)) n"

lemmas table_defs =
  PPTX_h_def decl_defs declared_def param_types_def param_names_def returns_value_def
  returns_type_def is_static_def takes_plot_count_def is_output_def output_params_def
  input_params_def type_of_param_def

section \<open>The callbacks' effects\<close>

text \<open>
  The bodies of the callbacks are in the driver's implementation file, which is not among
  the sources; the header only declares them. Their effects are taken from the table of
  section 4.1 of the specification. The device is the state a callback receives through
  \<^verbatim>\<open>pDevDesc dev\<close> and returns updated. Values of type \<^verbatim>\<open>double\<close> are only stored, never
  computed with, so their type is the parameter \<open>'d\<close>; the graphics context is the opaque
  parameter \<open>'g\<close>.
\<close>

text \<open>Modelled from the spec: what a page holds is missing from the sources. The table
  names shapes ("appends a shape to current page") and text runs ("appends text run");
  each element keeps the arguments of the call that drew it.\<close>

datatype ('d, 'g) element =
    Polyline "('d \<times> 'd) list" 'g
  | Polygon "('d \<times> 'd) list" 'g
  | TextRun 'd 'd string 'd 'd 'g

text \<open>Modelled from the spec: the device-specific state is "not declared here". It holds
  the elements of the current page, in drawing order, and the clipping region.\<close>

record ('d, 'g) device =
  page :: "('d, 'g) element list"
  clip_region :: "'d \<times> 'd \<times> 'd \<times> 'd"

text \<open>Modelled from the spec: the body of \<^verbatim>\<open>PPTX_Text\<close> is missing. "text: position,
  string, rotation, horizontal adjustment, context, device handle; appends text run".\<close>

definition PPTX_Text ::
  "'d \<Rightarrow> 'd \<Rightarrow> string \<Rightarrow> 'd \<Rightarrow> 'd \<Rightarrow> 'g \<Rightarrow> ('d, 'g) device \<Rightarrow> ('d, 'g) device" where
  "PPTX_Text x y str rot hadj gc dev = dev\<lparr>page := page dev @ [TextRun x y str rot hadj gc]\<rparr>"

text \<open>Modelled from the spec: the body of \<^verbatim>\<open>PPTX_Clip\<close> is missing. "clip: bounding box,
  device handle; sets clipping region for subsequent primitives".\<close>

definition PPTX_Clip ::
  "'d \<Rightarrow> 'd \<Rightarrow> 'd \<Rightarrow> 'd \<Rightarrow> ('d, 'g) device \<Rightarrow> ('d, 'g) device" where
  "PPTX_Clip x0 x1 y0 y1 dev = dev\<lparr>clip_region := (x0, x1, y0, y1)\<rparr>"

section \<open>Properties of the declared interface\<close>

text \<open>
  C1 (as stated, refuted). No declaration of the header both takes the plot count and
  returns a host handle: the claim's "single construction function" does not exist.
\<close>

theorem no_constructor_with_plot_count_and_handle:
  "\<not> (\<exists>d \<in> set PPTX_h. takes_plot_count d \<and> returns_type SEXP d)"
  by (simp add: table_defs)

text \<open>
  C1 (amended). Construction is declared as two functions. \<^verbatim>\<open>GE_PPTXDevice\<close> takes the
  file name, the page dimensions and offsets, the point size, the plot count and the font
  family, and returns nothing. \<^verbatim>\<open>R_PPTX_Device\<close> takes eight host values, among them an
  environment and no plot count, and is the only declaration that returns a host handle
  (\<^verbatim>\<open>SEXP\<close>). The plot count is a parameter of \<^verbatim>\<open>PPTXDeviceDriver\<close> and \<^verbatim>\<open>GE_PPTXDevice\<close>
  only.
\<close>

theorem construction_entry_points:
  "param_names GE_PPTXDevice_decl =
     [''filename'', ''width'', ''height'', ''offx'', ''offy'', ''ps'', ''nbplots'',
      ''fontfamily'']
   \<and> result GE_PPTXDevice_decl = CVoid
   \<and> param_names R_PPTX_Device_decl =
     [''filename'', ''width'', ''height'', ''offx'', ''offy'', ''pointsize'',
      ''fontfamily'', ''env'']
   \<and> filter (returns_type SEXP) PPTX_h = [R_PPTX_Device_decl]
   \<and> filter takes_plot_count PPTX_h = [PPTXDeviceDriver_decl, GE_PPTXDevice_decl]"
  by (simp add: table_defs)

text \<open>
  C2. \<^verbatim>\<open>R_PPTX_Device\<close> is declared once, with C linkage (not \<^verbatim>\<open>static\<close>), with
  exactly eight parameters, all of the host's value type \<^verbatim>\<open>SEXP\<close>, in the order
  filename, width, height, offx, offy, pointsize, fontfamily, env; its result is a
  \<^verbatim>\<open>SEXP\<close> too. That is the shape the host's native-call table registers: a name and
  an arity of eight.
\<close>

theorem R_PPTX_Device_arity:
  "declared ''R_PPTX_Device'' = [R_PPTX_Device_decl]
   \<and> storage R_PPTX_Device_decl = ExternC
   \<and> length (params R_PPTX_Device_decl) = 8
   \<and> param_types R_PPTX_Device_decl = replicate 8 SEXP
   \<and> param_names R_PPTX_Device_decl =
       [''filename'', ''width'', ''height'', ''offx'', ''offy'', ''pointsize'',
        ''fontfamily'', ''env'']
   \<and> result R_PPTX_Device_decl = SEXP"
  by (simp add: table_defs numeral_eq_Suc)

text \<open>
  C3 (as stated, refuted). \<^verbatim>\<open>PPTXDeviceDriver\<close> is not the only static callback whose
  result type can carry an indication back: \<^verbatim>\<open>PPTX_StrWidth\<close> returns a \<^verbatim>\<open>double\<close>.
\<close>

theorem driver_not_only_callback_with_result:
  "\<not> (\<forall>d \<in> set PPTX_h. is_static d \<and> d \<noteq> PPTXDeviceDriver_decl \<longrightarrow> \<not> returns_value d)"
  by (simp add: table_defs)

text \<open>
  C3 (amended). \<^verbatim>\<open>PPTXDeviceDriver\<close> is declared to return \<^verbatim>\<open>Rboolean\<close> and is the only
  declaration that does. Of the other static callbacks exactly one has a result type
  other than \<^verbatim>\<open>void\<close>: \<^verbatim>\<open>PPTX_StrWidth\<close>, which returns a \<^verbatim>\<open>double\<close>.
\<close>

theorem driver_returns_Rboolean:
  "result PPTXDeviceDriver_decl = Rboolean
   \<and> filter (returns_type Rboolean) PPTX_h = [PPTXDeviceDriver_decl]
   \<and> filter returns_value (filter is_static PPTX_h) =
       [PPTXDeviceDriver_decl, PPTX_StrWidth_decl]
   \<and> result PPTX_StrWidth_decl = CDouble"
  by (simp add: table_defs)

text \<open>
  C4. \<^verbatim>\<open>PPTX_Text\<close> is declared with exactly the parameters x, y (the position), str (the
  string), rot (the rotation), hadj (the horizontal adjustment), gc (the graphics context)
  and dev (the device handle), in this order, and returns \<^verbatim>\<open>void\<close>. In the model of its
  effect the call appends one text run, built from these arguments, to the page and
  leaves everything else of the device as it was.
\<close>

theorem PPTX_Text_signature_and_effect:
  "params PPTX_Text_decl =
     [(CDouble, ''x''), (CDouble, ''y''), (Ptr (Const CChar), ''str''), (CDouble, ''rot''),
      (CDouble, ''hadj''), (Const pGEcontext, ''gc''), (pDevDesc, ''dev'')]
   \<and> result PPTX_Text_decl = CVoid
   \<and> declared ''PPTX_Text'' = [PPTX_Text_decl]
   \<and> page (PPTX_Text x y str rot hadj gc dev) = page dev @ [TextRun x y str rot hadj gc]
   \<and> clip_region (PPTX_Text x y str rot hadj gc dev) = clip_region dev
   \<and> device.more (PPTX_Text x y str rot hadj gc dev) = device.more dev"
  by (simp add: table_defs PPTX_Text_def)

text \<open>
  C5. \<^verbatim>\<open>PPTX_MetricInfo\<close> takes the character code c, the graphics context and the device
  handle as inputs; its three remaining parameters ascent, descent and width are pointers
  to non-const \<^verbatim>\<open>double\<close>, the output parameters; and its result type is \<^verbatim>\<open>void\<close>, so
  the three metrics can only come back through those pointers.
\<close>

theorem PPTX_MetricInfo_outputs:
  "input_params PPTX_MetricInfo_decl =
     [(CInt, ''c''), (Const pGEcontext, ''gc''), (pDevDesc, ''dev'')]
   \<and> output_params PPTX_MetricInfo_decl =
     [(Ptr CDouble, ''ascent''), (Ptr CDouble, ''descent''), (Ptr CDouble, ''width'')]
   \<and> length (params PPTX_MetricInfo_decl) = 6
   \<and> result PPTX_MetricInfo_decl = CVoid
   \<and> declared ''PPTX_MetricInfo'' = [PPTX_MetricInfo_decl]"
  by (simp add: table_defs)

text \<open>
  C6. \<^verbatim>\<open>PPTX_StrWidth\<close> takes the string, the graphics context and the device handle,
  has no output parameter, and its result type is \<^verbatim>\<open>double\<close>: the width is the return
  value.
\<close>

theorem PPTX_StrWidth_returns_width:
  "params PPTX_StrWidth_decl =
     [(Ptr (Const CChar), ''str''), (Const pGEcontext, ''gc''), (pDevDesc, ''dev'')]
   \<and> output_params PPTX_StrWidth_decl = []
   \<and> result PPTX_StrWidth_decl = CDouble
   \<and> declared ''PPTX_StrWidth'' = [PPTX_StrWidth_decl]"
  by (simp add: table_defs)

text \<open>
  C7. \<^verbatim>\<open>PPTX_Clip\<close> takes four \<^verbatim>\<open>double\<close> coordinates (x0, x1, y0, y1) and the device
  handle, no graphics context, and returns \<^verbatim>\<open>void\<close>. In the model of its effect the call
  sets the clipping region to the box, changes nothing else of the device, and the region
  is still the box after a following primitive (a text run) was drawn.
\<close>

theorem PPTX_Clip_signature_and_effect:
  "params PPTX_Clip_decl =
     [(CDouble, ''x0''), (CDouble, ''x1''), (CDouble, ''y0''), (CDouble, ''y1''),
      (pDevDesc, ''dev'')]
   \<and> filter (\<lambda>t. t = Const pGEcontext \<or> t = pGEcontext) (param_types PPTX_Clip_decl) = []
   \<and> result PPTX_Clip_decl = CVoid
   \<and> declared ''PPTX_Clip'' = [PPTX_Clip_decl]
   \<and> clip_region (PPTX_Clip x0 x1 y0 y1 dev) = (x0, x1, y0, y1)
   \<and> page (PPTX_Clip x0 x1 y0 y1 dev) = page dev
   \<and> device.more (PPTX_Clip x0 x1 y0 y1 dev) = device.more dev
   \<and> clip_region (PPTX_Text x y str rot hadj gc (PPTX_Clip x0 x1 y0 y1 dev)) =
       (x0, x1, y0, y1)"
  by (simp add: table_defs PPTX_Clip_def PPTX_Text_def)

text \<open>
  C8. The twelve callbacks activate, circle, line, polyline, polygon, rect, text, newPage,
  close, clip, metricInfo and size are all declared with result type \<^verbatim>\<open>void\<close>: none of
  them hands a value back through its return. They are exactly the static declarations of
  the header without a result.
\<close>

theorem callbacks_return_void:
  "map result
     [PPTX_activate_decl, PPTX_Circle_decl, PPTX_Line_decl, PPTX_Polyline_decl,
      PPTX_Polygon_decl, PPTX_Rect_decl, PPTX_Text_decl, PPTX_NewPage_decl,
      PPTX_Close_decl, PPTX_Clip_decl, PPTX_MetricInfo_decl, PPTX_Size_decl]
     = replicate 12 CVoid
   \<and> map returns_value
     [PPTX_activate_decl, PPTX_Circle_decl, PPTX_Line_decl, PPTX_Polyline_decl,
      PPTX_Polygon_decl, PPTX_Rect_decl, PPTX_Text_decl, PPTX_NewPage_decl,
      PPTX_Close_decl, PPTX_Clip_decl, PPTX_MetricInfo_decl, PPTX_Size_decl]
     = replicate 12 False
   \<and> filter (returns_type CVoid) (filter is_static PPTX_h) =
     [PPTX_activate_decl, PPTX_Circle_decl, PPTX_Line_decl, PPTX_Polyline_decl,
      PPTX_Polygon_decl, PPTX_Rect_decl, PPTX_Text_decl, PPTX_NewPage_decl,
      PPTX_Close_decl, PPTX_Clip_decl, PPTX_MetricInfo_decl, PPTX_Size_decl]"
  by (simp add: table_defs numeral_eq_Suc)

text \<open>
  C10. In \<^verbatim>\<open>GE_PPTXDevice\<close> and in \<^verbatim>\<open>PPTXDeviceDriver\<close> the parameters width, height, offx
  and offy are pointers to non-const \<^verbatim>\<open>double\<close>, through which the callee can read and
  write the caller's variables, and they are the only such parameters; the point size ps
  is a \<^verbatim>\<open>double\<close> and the plot count nbplots an \<^verbatim>\<open>int\<close>, both passed by value.
\<close>

theorem dimensions_passed_by_pointer:
  "output_params GE_PPTXDevice_decl =
     [(Ptr CDouble, ''width''), (Ptr CDouble, ''height''), (Ptr CDouble, ''offx''),
      (Ptr CDouble, ''offy'')]
   \<and> output_params PPTXDeviceDriver_decl =
     [(Ptr CDouble, ''width''), (Ptr CDouble, ''height''), (Ptr CDouble, ''offx''),
      (Ptr CDouble, ''offy'')]
   \<and> type_of_param GE_PPTXDevice_decl ''ps'' = Some CDouble
   \<and> type_of_param GE_PPTXDevice_decl ''nbplots'' = Some CInt
   \<and> type_of_param PPTXDeviceDriver_decl ''ps'' = Some CDouble
   \<and> type_of_param PPTXDeviceDriver_decl ''nbplots'' = Some CInt"
  by (simp add: table_defs)

end
